theory Spec2Isabelle
  imports Main "HOL-Library.Multiset"
begin

section \<open>Data model of \<^verbatim>\<open>src/backend/server.py\<close>\<close>

text \<open>
  The documents of the MongoDB collections are dictionaries with a fixed set of keys; each
  is a record here, with the key \<^verbatim>\<open>id\<close> named after its collection. Identifiers are the
  strings produced by \<^verbatim>\<open>str(uuid.uuid4())\<close>. A Python \<^verbatim>\<open>str\<close> is a list of characters, and
  \<^verbatim>\<open>s[:50]\<close> is \<open>take 50 s\<close>. A \<^verbatim>\<open>datetime\<close> is a point on a discrete time line (an
  integer number of clock ticks).

  The caller of an endpoint is the \<^verbatim>\<open>User\<close> that \<^verbatim>\<open>get_current_user\<close> returned for the
  request's token.
\<close>

record user =
  user_id :: string
  username :: string
  user_created_at :: int

record chatbot =
  chatbot_id :: string
  chatbot_user_id :: string
  name :: string
  description :: string
  introduction :: string
  is_censored :: bool
  chatbot_created_at :: int
  creator_username :: string

record conversation =
  conv_id :: string
  conv_user_id :: string
  conv_chatbot_id :: string
  conv_created_at :: int

record message =
  message_id :: string
  conversation_id :: string
  sender_type :: string
  content :: string
  timestamp :: int

text \<open>
  The database: the collections the chat endpoints read and write, each in insertion order.
  A collection keeps a document as it was given to \<^verbatim>\<open>insert_one\<close>.
\<close>

record database =
  chatbots_collection :: "chatbot list"
  conversations_collection :: "conversation list"
  messages_collection :: "message list"

text \<open>
  What an endpoint can raise: an \<^verbatim>\<open>HTTPException\<close> with its status code and detail, or
  any other exception, which leaves the handler uncaught (the driver's storage error of a
  failed \<^verbatim>\<open>insert_one\<close>); the string is \<^verbatim>\<open>str(e)\<close>.
\<close>

datatype error = HTTPException nat string | Uncaught string

section \<open>The collection operations used by the endpoints\<close>

text \<open>\<^verbatim>\<open>find_one(filter)\<close>: the first document that matches, or \<^verbatim>\<open>None\<close>.\<close>

definition find_one :: "('a \<Rightarrow> bool) \<Rightarrow> 'a list \<Rightarrow> 'a option" where
  "find_one p coll = List.find p coll"

text \<open>
  \<^verbatim>\<open>insert_one(doc)\<close>: appends the document, or raises. Whether the write fails is decided
  outside the program, so it is an argument: \<open>None\<close> when the write succeeds, \<open>Some e\<close> when
  the driver raises an exception whose text is \<open>e\<close> and nothing is stored.
\<close>

definition insert_one :: "string option \<Rightarrow> 'a \<Rightarrow> 'a list \<Rightarrow> string + 'a list" where
  "insert_one fault doc coll = (case fault of Some e \<Rightarrow> Inl e | None \<Rightarrow> Inr (coll @ [doc]))"

text \<open>\<^verbatim>\<open>delete_one(filter)\<close> removes the first match, \<^verbatim>\<open>delete_many(filter)\<close> every match.\<close>

fun delete_one :: "('a \<Rightarrow> bool) \<Rightarrow> 'a list \<Rightarrow> 'a list" where
  "delete_one p [] = []"
| "delete_one p (x # xs) = (if p x then xs else x # delete_one p xs)"

definition delete_many :: "('a \<Rightarrow> bool) \<Rightarrow> 'a list \<Rightarrow> 'a list" where
  "delete_many p coll = filter (\<lambda>x. \<not> p x) coll"


text \<open>
  \<^verbatim>\<open>datetime.utcnow()\<close>: the wall clock, read some time after the reading before it. The
  clock can be set back between two readings, so the difference is an integer of either
  sign.
\<close>

definition utcnow :: "int \<Rightarrow> int \<Rightarrow> int" where
  "utcnow clock elapsed = clock + elapsed"

section \<open>The message endpoint: \<^verbatim>\<open>send_message\<close>\<close>

text \<open>
  Everything \<^verbatim>\<open>send_message\<close> gets from outside during one call: the three identifiers
  \<^verbatim>\<open>uuid4()\<close> may be asked for, the difference of each reading of the clock to the one before, the
  fate of each of the three \<^verbatim>\<open>insert_one\<close> calls, and what \<^verbatim>\<open>chat.send_message\<close> does:
  \<open>Inr text\<close> when it returns the string \<open>text\<close>, \<open>Inl e\<close> when it raises an exception
  (a timeout, an error of the provider, a response it cannot read) whose text is \<open>e\<close>. The
  call is taken to end in one of the two ways.
\<close>

record env =
  user_message_uuid :: string
  bot_message_uuid :: string
  fallback_message_uuid :: string
  user_elapsed :: int
  bot_elapsed :: int
  fallback_elapsed :: int
  user_insert :: "string option"
  llm_response :: "string + string"
  bot_insert :: "string option"
  fallback_insert :: "string option"

text \<open>
  The effects of a call in the order they happen: an \<^verbatim>\<open>insert_one\<close> on the messages
  collection that stored its document, one that raised, and a call of the language model
  with its session id, system message and user text, together with its outcome.
\<close>

datatype event =
    Insert_ok message
  | Insert_failed message string
  | Llm_call string string string "string + string"

record outcome =
  response :: "error + message \<times> message"
  store :: database
  clock_after :: int
  effects :: "event list"

text \<open>Lines 307 to 311: the system message built from the chatbot document.\<close>

definition system_message :: "chatbot \<Rightarrow> string" where
  "system_message chatbot =
     (let system_message = introduction chatbot @ '' You are '' @ name chatbot @ ''. '' @ description chatbot
      in if \<not> is_censored chatbot
         then system_message @ '' You can engage in roleplay and adult content as requested.''
         else system_message @ '' Keep your responses appropriate and family-friendly.'')"

text \<open>Line 345: the content of the fallback message for an exception with text \<open>e\<close>.\<close>

definition fallback_content :: "string \<Rightarrow> string" where
  "fallback_content e =
     ''I'' @ [CHR 0x27] @ ''m sorry, I'' @ [CHR 0x27] @ ''m having trouble responding right now. Please try again later. (''
       @ take 50 e @ ''...)''"

text \<open>
  Lines 338 to 353, the handler of \<^verbatim>\<open>except Exception as e\<close>: \<open>db\<close> is the database and
  \<open>clock\<close> the last clock reading when the exception is caught, \<open>evs\<close> the effects so far. The
  \<^verbatim>\<open>insert_one\<close> of line 348 is guarded by nothing: when it raises, the call raises.
\<close>

definition except_handler ::
  "database \<Rightarrow> int \<Rightarrow> env \<Rightarrow> string \<Rightarrow> message \<Rightarrow> event list \<Rightarrow> string \<Rightarrow> outcome" where
  "except_handler db clock env conv message_doc evs e =
     (let now = utcnow clock (fallback_elapsed env);
          bot_message_doc = \<lparr> message_id = fallback_message_uuid env,
                              conversation_id = conv,
                              sender_type = ''chatbot'',
                              content = fallback_content e,
                              timestamp = now \<rparr>
      in case insert_one (fallback_insert env) bot_message_doc (messages_collection db) of
           Inl e2 \<Rightarrow>
             \<lparr> response = Inl (Uncaught e2), store = db, clock_after = now,
               effects = evs @ [Insert_failed bot_message_doc e2] \<rparr>
         | Inr msgs \<Rightarrow>
             \<lparr> response = Inr (message_doc, bot_message_doc),
               store = db\<lparr> messages_collection := msgs \<rparr>, clock_after = now,
               effects = evs @ [Insert_ok bot_message_doc] \<rparr>)"

text \<open>
  Lines 305 to 336, the \<^verbatim>\<open>try\<close> block: the call of the language model, then the write of
  its answer. An exception of either goes to the handler.
\<close>

definition try_block ::
  "database \<Rightarrow> int \<Rightarrow> env \<Rightarrow> string \<Rightarrow> string \<Rightarrow> chatbot \<Rightarrow> message \<Rightarrow> event list \<Rightarrow> outcome" where
  "try_block db clock env conv text chatbot message_doc evs =
     (let call = Llm_call conv (system_message chatbot) text (llm_response env)
      in case llm_response env of
           Inl e \<Rightarrow> except_handler db clock env conv message_doc (evs @ [call]) e
         | Inr reply \<Rightarrow>
             (let now = utcnow clock (bot_elapsed env);
                  bot_message_doc = \<lparr> message_id = bot_message_uuid env,
                                      conversation_id = conv,
                                      sender_type = ''chatbot'',
                                      content = reply,
                                      timestamp = now \<rparr>
              in case insert_one (bot_insert env) bot_message_doc (messages_collection db) of
                   Inl e \<Rightarrow>
                     except_handler db now env conv message_doc
                       (evs @ [call, Insert_failed bot_message_doc e]) e
                 | Inr msgs \<Rightarrow>
                     \<lparr> response = Inr (message_doc, bot_message_doc),
                       store = db\<lparr> messages_collection := msgs \<rparr>, clock_after = now,
                       effects = evs @ [call, Insert_ok bot_message_doc] \<rparr>))"

text \<open>Lines 282 to 353. An endpoint that raises leaves the database as it was at that point.\<close>

definition raise :: "database \<Rightarrow> int \<Rightarrow> error \<Rightarrow> outcome" where
  "raise db clock err = \<lparr> response = Inl err, store = db, clock_after = clock, effects = [] \<rparr>"

definition send_message :: "database \<Rightarrow> int \<Rightarrow> env \<Rightarrow> string \<Rightarrow> string \<Rightarrow> user \<Rightarrow> outcome" where
  "send_message db clock env conv text current_user =
     (case find_one (\<lambda>c. conv_id c = conv) (conversations_collection db) of
        None \<Rightarrow> raise db clock (HTTPException 404 ''Conversation not found'')
      | Some conversation \<Rightarrow>
          if conv_user_id conversation \<noteq> user_id current_user
          then raise db clock (HTTPException 403 ''Not authorized'')
          else
            (case find_one (\<lambda>b. chatbot_id b = conv_chatbot_id conversation) (chatbots_collection db) of
               None \<Rightarrow> raise db clock (HTTPException 404 ''Chatbot not found'')
             | Some chatbot \<Rightarrow>
                 (let now = utcnow clock (user_elapsed env);
                      user_message_doc = \<lparr> message_id = user_message_uuid env,
                                           conversation_id = conv,
                                           sender_type = ''user'',
                                           content = text,
                                           timestamp = now \<rparr>
                  in case insert_one (user_insert env) user_message_doc (messages_collection db) of
                       Inl e \<Rightarrow>
                         \<lparr> response = Inl (Uncaught e), store = db, clock_after = now,
                           effects = [Insert_failed user_message_doc e] \<rparr>
                     | Inr msgs \<Rightarrow>
                         try_block (db\<lparr> messages_collection := msgs \<rparr>) now env conv text chatbot
                           user_message_doc [Insert_ok user_message_doc])))"

section \<open>Reading a transcript: \<^verbatim>\<open>get_conversation_messages\<close>\<close>


section \<open>Removing a chatbot: \<^verbatim>\<open>delete_chatbot\<close>\<close>

text \<open>
  Lines 247 to 260. The third statement deletes the messages whose conversation id is in the
  list the source writes there, which is the empty list.
\<close>

definition delete_chatbot :: "database \<Rightarrow> string \<Rightarrow> user \<Rightarrow> error + database" where
  "delete_chatbot db bid current_user =
     (case find_one (\<lambda>b. chatbot_id b = bid) (chatbots_collection db) of
        None \<Rightarrow> Inl (HTTPException 404 ''Chatbot not found'')
      | Some chatbot \<Rightarrow>
          if chatbot_user_id chatbot \<noteq> user_id current_user
          then Inl (HTTPException 403 ''Not authorized to delete this chatbot'')
          else Inr \<lparr> chatbots_collection = delete_one (\<lambda>b. chatbot_id b = bid) (chatbots_collection db),
                     conversations_collection =
                       delete_many (\<lambda>c. conv_chatbot_id c = bid) (conversations_collection db),
                     messages_collection =
                       delete_many (\<lambda>m. conversation_id m \<in> set []) (messages_collection db) \<rparr>)"

section \<open>Reading the effects of a call\<close>

text \<open>
  The messages an \<^verbatim>\<open>insert_one\<close> of a call stored, in order.
\<close>

fun written :: "event list \<Rightarrow> message list" where
  "written [] = []"
| "written (Insert_ok m # evs) = m # written evs"
| "written (Insert_failed m e # evs) = written evs"
| "written (Llm_call sid sys txt res # evs) = written evs"

section \<open>A client that sends one message after another\<close>



section \<open>Sample data\<close>

definition alice :: user where
  "alice = \<lparr> user_id = ''u1'', username = ''alice'', user_created_at = 0 \<rparr>"

definition bob :: user where
  "bob = \<lparr> user_id = ''u2'', username = ''bob'', user_created_at = 0 \<rparr>"

definition nova :: chatbot where
  "nova = \<lparr> chatbot_id = ''b1'', chatbot_user_id = ''u1'', name = ''Nova'',
            description = ''a helpful guide'', introduction = ''Hi, I am Nova.'',
            is_censored = True, chatbot_created_at = 1, creator_username = ''alice'' \<rparr>"

definition chat :: conversation where
  "chat = \<lparr> conv_id = ''c1'', conv_user_id = ''u1'', conv_chatbot_id = ''b1'',
            conv_created_at = 2 \<rparr>"

definition fresh_db :: database where
  "fresh_db = \<lparr> chatbots_collection = [nova], conversations_collection = [chat],
                messages_collection = [] \<rparr>"

text \<open>The chatbot of the conversation is gone: the orphan case.\<close>

definition orphan_db :: database where
  "orphan_db = \<lparr> chatbots_collection = [], conversations_collection = [chat],
                 messages_collection = [] \<rparr>"

definition hello :: message where
  "hello = \<lparr> message_id = ''m0'', conversation_id = ''c1'', sender_type = ''user'',
             content = ''Hello'', timestamp = 3 \<rparr>"

definition used_db :: database where
  "used_db = \<lparr> chatbots_collection = [nova], conversations_collection = [chat],
               messages_collection = [hello] \<rparr>"

text \<open>Every write succeeds and the model answers.\<close>

definition healthy :: env where
  "healthy = \<lparr> user_message_uuid = ''m1'', bot_message_uuid = ''m2'',
               fallback_message_uuid = ''m3'', user_elapsed = 1, bot_elapsed = 2,
               fallback_elapsed = 1, user_insert = None, llm_response = Inr ''Hi there'',
               bot_insert = None, fallback_insert = None \<rparr>"

text \<open>The call of the model raises; the writes succeed.\<close>

definition llm_down :: env where
  "llm_down = healthy\<lparr> llm_response := Inl ''Request timed out'' \<rparr>"

text \<open>The call of the model raises, and then so does the write of the fallback message.\<close>

definition llm_down_store_down :: env where
  "llm_down_store_down =
     healthy\<lparr> llm_response := Inl ''Request timed out'', fallback_insert := Some ''not primary'' \<rparr>"

text \<open>The first write raises.\<close>

definition store_down :: env where
  "store_down = healthy\<lparr> user_insert := Some ''connection refused'' \<rparr>"

text \<open>The model answers, the write of its answer raises, the write of the fallback succeeds.\<close>

definition bot_write_fails :: env where
  "bot_write_fails = healthy\<lparr> bot_insert := Some ''connection reset'' \<rparr>"

text \<open>The model answers, the write of its answer raises and so does the one of the fallback.\<close>

definition bot_writes_fail :: env where
  "bot_writes_fail =
     healthy\<lparr> bot_insert := Some ''connection reset'', fallback_insert := Some ''not primary'' \<rparr>"

text \<open>The clock is set back by five ticks between the writes of the two messages.\<close>

definition clock_set_back :: env where
  "clock_set_back = healthy\<lparr> bot_elapsed := - 5 \<rparr>"

text \<open>The two messages are written within one tick of the clock.\<close>

definition same_tick :: env where
  "same_tick = healthy\<lparr> bot_elapsed := 0 \<rparr>"

text \<open>Two requests in a row: the first is answered by the model, the second by the fallback.\<close>

definition two_turns :: "(env \<times> string) list" where
  "two_turns = [(healthy, ''Hello''), (llm_down, ''Again'')]"

section \<open>Unfolding the endpoint\<close>

lemmas send_message_unfold =
  send_message_def try_block_def except_handler_def raise_def insert_one_def utcnow_def Let_def

lemmas sample_defs =
  alice_def bob_def nova_def chat_def fresh_db_def orphan_db_def hello_def used_db_def
  healthy_def llm_down_def llm_down_store_down_def store_down_def bot_write_fails_def
  bot_writes_fail_def clock_set_back_def same_tick_def two_turns_def find_one_def




section \<open>The transcript after a sequence of requests\<close>




section \<open>A turn the model answers\<close>

text \<open>
  Claim C2, as amended. The conversation exists, the caller owns it, its chatbot exists,
  both writes succeed and the model returns a text. Then the call returns exactly two
  messages, the user's with the text sent and the chatbot's with the model's text, and
  these two, in this order, are what the call appended to the messages collection. The
  chatbot message's timestamp is the user message's plus the difference of the second
  clock reading to the first; so when the clock was not set back between the two readings,
  the chatbot message's timestamp is not before the user message's.
\<close>

theorem healthy_turn:
  assumes "r = send_message db clock env conv text current_user"
    and "find_one (\<lambda>c. conv_id c = conv) (conversations_collection db) = Some conversation"
    and "conv_user_id conversation = user_id current_user"
    and "find_one (\<lambda>b. chatbot_id b = conv_chatbot_id conversation) (chatbots_collection db) = Some chatbot"
    and "user_insert env = None"
    and "llm_response env = Inr reply"
    and "bot_insert env = None"
  shows "\<exists>um bm. response r = Inr (um, bm)
     \<and> messages_collection (store r) = messages_collection db @ [um, bm]
     \<and> written (effects r) = [um, bm]
     \<and> conversation_id um = conv \<and> sender_type um = ''user'' \<and> content um = text
     \<and> conversation_id bm = conv \<and> sender_type bm = ''chatbot'' \<and> content bm = reply
     \<and> timestamp bm = timestamp um + bot_elapsed env
     \<and> (0 \<le> bot_elapsed env \<longrightarrow> timestamp um \<le> timestamp bm)"
  using assms by (simp add: send_message_unfold)

theorem healthy_turn_witness:
  "find_one (\<lambda>c. conv_id c = ''c1'') (conversations_collection fresh_db) = Some chat
   \<and> conv_user_id chat = user_id alice
   \<and> find_one (\<lambda>b. chatbot_id b = conv_chatbot_id chat) (chatbots_collection fresh_db) = Some nova
   \<and> user_insert healthy = None
   \<and> llm_response healthy = Inr ''Hi there''
   \<and> bot_insert healthy = None
   \<and> 0 \<le> bot_elapsed healthy
   \<and> (\<exists>um bm. response (send_message fresh_db 10 healthy ''c1'' ''Hello'' alice) = Inr (um, bm)
        \<and> messages_collection (store (send_message fresh_db 10 healthy ''c1'' ''Hello'' alice))
            = messages_collection fresh_db @ [um, bm]
        \<and> written (effects (send_message fresh_db 10 healthy ''c1'' ''Hello'' alice)) = [um, bm]
        \<and> conversation_id um = ''c1'' \<and> sender_type um = ''user'' \<and> content um = ''Hello''
        \<and> conversation_id bm = ''c1'' \<and> sender_type bm = ''chatbot'' \<and> content bm = ''Hi there''
        \<and> timestamp um \<le> timestamp bm)"
proof -
  have h1: "find_one (\<lambda>c. conv_id c = ''c1'') (conversations_collection fresh_db) = Some chat"
    and h2: "conv_user_id chat = user_id alice"
    and h3: "find_one (\<lambda>b. chatbot_id b = conv_chatbot_id chat) (chatbots_collection fresh_db) = Some nova"
    and h4: "user_insert healthy = None"
    and h5: "llm_response healthy = Inr ''Hi there''"
    and h6: "bot_insert healthy = None"
    and h7: "0 \<le> bot_elapsed healthy"
    by (simp_all add: sample_defs)
  from h1 h2 h3 h4 h5 h6 h7 healthy_turn [OF refl h1 h2 h3 h4 h5 h6, of 10 "''Hello''"]
  show ?thesis by auto
qed

text \<open>
  Claim C2 as stated fails. Every hypothesis of the claim holds, and the clock is set back
  by five ticks between the reading of line 301 and the reading of line 329: the call
  returns its two messages and stores them, and the chatbot message's timestamp is earlier
  than the user message's.
\<close>

theorem healthy_turn_counterexample:
  "find_one (\<lambda>c. conv_id c = ''c1'') (conversations_collection fresh_db) = Some chat
   \<and> conv_user_id chat = user_id alice
   \<and> find_one (\<lambda>b. chatbot_id b = conv_chatbot_id chat) (chatbots_collection fresh_db) = Some nova
   \<and> user_insert clock_set_back = None
   \<and> llm_response clock_set_back = Inr ''Hi there''
   \<and> bot_insert clock_set_back = None
   \<and> response (send_message fresh_db 10 clock_set_back ''c1'' ''Hello'' alice)
     = Inr (\<lparr> message_id = ''m1'', conversation_id = ''c1'', sender_type = ''user'',
              content = ''Hello'', timestamp = 11 \<rparr>,
            \<lparr> message_id = ''m2'', conversation_id = ''c1'', sender_type = ''chatbot'',
              content = ''Hi there'', timestamp = 6 \<rparr>)
   \<and> timestamp \<lparr> message_id = ''m2'', conversation_id = ''c1'', sender_type = ''chatbot'',
                  content = ''Hi there'', timestamp = 6 \<rparr>
     < timestamp \<lparr> message_id = ''m1'', conversation_id = ''c1'', sender_type = ''user'',
                    content = ''Hello'', timestamp = 11 \<rparr>"
  by (simp add: send_message_unfold sample_defs)

section \<open>A turn the model fails\<close>

text \<open>
  Claim C1, as amended. In every call in which the language model is called and raises, and
  in which the write of the fallback message succeeds, the call returns the user's message
  and a chatbot message without raising; these two are what the call appended to the
  messages collection; and the chatbot message's content is the fixed apology followed by
  the first 50 characters at most of the exception's text, in parentheses and followed by
  three dots.
\<close>

theorem fallback_on_llm_failure:
  assumes "r = send_message db clock env conv text current_user"
    and "Llm_call sid sys txt (Inl e) \<in> set (effects r)"
    and "fallback_insert env = None"
  shows "\<exists>um bm. response r = Inr (um, bm)
     \<and> messages_collection (store r) = messages_collection db @ [um, bm]
     \<and> written (effects r) = [um, bm]
     \<and> conversation_id um = conv \<and> sender_type um = ''user'' \<and> content um = text
     \<and> conversation_id bm = conv \<and> sender_type bm = ''chatbot''
     \<and> content bm =
         ''I'' @ [CHR 0x27] @ ''m sorry, I'' @ [CHR 0x27]
           @ ''m having trouble responding right now. Please try again later. (''
           @ take 50 e @ ''...)''
     \<and> length (take 50 e) \<le> 50"
  using assms
  by (auto simp: send_message_unfold fallback_content_def split: option.splits if_splits sum.splits)

theorem fallback_on_llm_failure_witness:
  "Llm_call ''c1'' (system_message nova) ''Hello'' (Inl ''Request timed out'')
       \<in> set (effects (send_message fresh_db 10 llm_down ''c1'' ''Hello'' alice))
   \<and> fallback_insert llm_down = None
   \<and> (\<exists>um bm. response (send_message fresh_db 10 llm_down ''c1'' ''Hello'' alice) = Inr (um, bm)
        \<and> messages_collection (store (send_message fresh_db 10 llm_down ''c1'' ''Hello'' alice))
            = messages_collection fresh_db @ [um, bm]
        \<and> sender_type bm = ''chatbot''
        \<and> content bm =
            ''I'' @ [CHR 0x27] @ ''m sorry, I'' @ [CHR 0x27]
              @ ''m having trouble responding right now. Please try again later. (''
              @ ''Request timed out'' @ ''...)'')"
proof -
  have h1: "Llm_call ''c1'' (system_message nova) ''Hello'' (Inl ''Request timed out'')
       \<in> set (effects (send_message fresh_db 10 llm_down ''c1'' ''Hello'' alice))"
    by (simp add: send_message_unfold sample_defs)
  have h2: "fallback_insert llm_down = None"
    by (simp add: sample_defs)
  from h1 h2 fallback_on_llm_failure [OF refl h1 h2]
  show ?thesis by auto
qed

text \<open>
  Claim C1 as stated fails. The model raises, and then the write of the fallback message
  raises as well: the call raises the second exception, and the only message it stored is
  the user's.
\<close>

theorem fallback_on_llm_failure_counterexample:
  "Llm_call ''c1'' (system_message nova) ''Hello'' (Inl ''Request timed out'')
       \<in> set (effects (send_message fresh_db 10 llm_down_store_down ''c1'' ''Hello'' alice))
   \<and> response (send_message fresh_db 10 llm_down_store_down ''c1'' ''Hello'' alice)
       = Inl (Uncaught ''not primary'')
   \<and> messages_collection (store (send_message fresh_db 10 llm_down_store_down ''c1'' ''Hello'' alice))
       = [\<lparr> message_id = ''m1'', conversation_id = ''c1'', sender_type = ''user'',
            content = ''Hello'', timestamp = 11 \<rparr>]"
  by (simp add: send_message_unfold sample_defs)

section \<open>The user's message cannot be stored\<close>

text \<open>
  Claim C3. In every call in which the write of the user's message raises, the call raises
  that storage exception, the failed write is its only effect (the language model is not
  called and no chatbot message is written) and the database is unchanged. And in every
  call at all, a call of the language model comes directly after the successful write of
  the user's message, which is the first effect of the call and stays in the messages
  collection; no second call of the model follows.
\<close>

theorem user_write_failure:
  assumes "r = send_message db clock env conv text current_user"
  shows "(Insert_failed m e \<in> set (effects r) \<and> sender_type m = ''user'' \<longrightarrow>
            response r = Inl (Uncaught e) \<and> store r = db \<and> effects r = [Insert_failed m e])
     \<and> (Llm_call sid sys txt res \<in> set (effects r) \<longrightarrow>
            (\<exists>um rest. effects r = Insert_ok um # Llm_call sid sys txt res # rest
               \<and> sender_type um = ''user'' \<and> content um = text \<and> conversation_id um = conv
               \<and> um \<in> set (messages_collection (store r))
               \<and> (\<forall>ev \<in> set rest. \<forall>a b c d. ev \<noteq> Llm_call a b c d)))"
  using assms
  by (auto simp: send_message_unfold split: option.splits if_splits sum.splits)

theorem user_write_failure_witness:
  "Insert_failed \<lparr> message_id = ''m1'', conversation_id = ''c1'', sender_type = ''user'',
                   content = ''Hello'', timestamp = 11 \<rparr> ''connection refused''
       \<in> set (effects (send_message fresh_db 10 store_down ''c1'' ''Hello'' alice))
   \<and> response (send_message fresh_db 10 store_down ''c1'' ''Hello'' alice)
       = Inl (Uncaught ''connection refused'')
   \<and> store (send_message fresh_db 10 store_down ''c1'' ''Hello'' alice) = fresh_db
   \<and> effects (send_message fresh_db 10 store_down ''c1'' ''Hello'' alice)
       = [Insert_failed \<lparr> message_id = ''m1'', conversation_id = ''c1'', sender_type = ''user'',
                          content = ''Hello'', timestamp = 11 \<rparr> ''connection refused'']
   \<and> Llm_call ''c1'' (system_message nova) ''Hello'' (Inr ''Hi there'')
       \<in> set (effects (send_message fresh_db 10 healthy ''c1'' ''Hello'' alice))
   \<and> (\<exists>um rest. effects (send_message fresh_db 10 healthy ''c1'' ''Hello'' alice)
          = Insert_ok um # Llm_call ''c1'' (system_message nova) ''Hello'' (Inr ''Hi there'') # rest
        \<and> sender_type um = ''user'' \<and> content um = ''Hello'')"
proof -
  let ?m = "\<lparr> message_id = ''m1'', conversation_id = ''c1'', sender_type = ''user'',
              content = ''Hello'', timestamp = 11 \<rparr>"
  have h1: "Insert_failed ?m ''connection refused''
       \<in> set (effects (send_message fresh_db 10 store_down ''c1'' ''Hello'' alice))"
    by (simp add: send_message_unfold sample_defs)
  have h2: "sender_type ?m = ''user''"
    by simp
  have h3: "Llm_call ''c1'' (system_message nova) ''Hello'' (Inr ''Hi there'')
       \<in> set (effects (send_message fresh_db 10 healthy ''c1'' ''Hello'' alice))"
    by (simp add: send_message_unfold sample_defs)
  from user_write_failure [OF refl, of ?m "''connection refused''" fresh_db 10 store_down "''c1''" "''Hello''" alice] h1 h2
  have a: "response (send_message fresh_db 10 store_down ''c1'' ''Hello'' alice)
       = Inl (Uncaught ''connection refused'')
     \<and> store (send_message fresh_db 10 store_down ''c1'' ''Hello'' alice) = fresh_db
     \<and> effects (send_message fresh_db 10 store_down ''c1'' ''Hello'' alice)
       = [Insert_failed ?m ''connection refused'']"
    by blast
  from user_write_failure [OF refl, of _ _ fresh_db 10 healthy "''c1''" "''Hello''" alice
      "''c1''" "system_message nova" "''Hello''" "Inr ''Hi there''"] h3
  have b: "\<exists>um rest. effects (send_message fresh_db 10 healthy ''c1'' ''Hello'' alice)
          = Insert_ok um # Llm_call ''c1'' (system_message nova) ''Hello'' (Inr ''Hi there'') # rest
        \<and> sender_type um = ''user'' \<and> content um = ''Hello''"
    by blast
  from h1 h3 a b show ?thesis by simp
qed

section \<open>Requests that are refused before any write\<close>

text \<open>
  Claim C4. The conversation exists and the caller is not the user it belongs to. Then the
  call raises the HTTP exception 403 (not authorized), has no effect, and leaves the
  database, the messages collection included, exactly as it was.
\<close>

theorem not_owner_forbidden:
  assumes "r = send_message db clock env conv text current_user"
    and "find_one (\<lambda>c. conv_id c = conv) (conversations_collection db) = Some conversation"
    and "conv_user_id conversation \<noteq> user_id current_user"
  shows "response r = Inl (HTTPException 403 ''Not authorized'')
     \<and> store r = db \<and> effects r = []"
  using assms by (simp add: send_message_def raise_def)

theorem not_owner_forbidden_witness:
  "find_one (\<lambda>c. conv_id c = ''c1'') (conversations_collection used_db) = Some chat
   \<and> conv_user_id chat \<noteq> user_id bob
   \<and> response (send_message used_db 10 healthy ''c1'' ''Hello'' bob)
       = Inl (HTTPException 403 ''Not authorized'')
   \<and> store (send_message used_db 10 healthy ''c1'' ''Hello'' bob) = used_db
   \<and> effects (send_message used_db 10 healthy ''c1'' ''Hello'' bob) = []"
proof -
  have h1: "find_one (\<lambda>c. conv_id c = ''c1'') (conversations_collection used_db) = Some chat"
    and h2: "conv_user_id chat \<noteq> user_id bob"
    by (simp_all add: sample_defs)
  from h1 h2 not_owner_forbidden [OF refl h1 h2, of 10 healthy "''Hello''"]
  show ?thesis by simp
qed

text \<open>
  Claim C5, as amended. Either no conversation has the given id, or the conversation exists,
  the caller owns it, and no chatbot has the conversation's chatbot id. Then the call raises
  an HTTP exception with status 404, has no effect, and leaves the database as it was.
\<close>

theorem not_found_no_writes:
  assumes "r = send_message db clock env conv text current_user"
    and "find_one (\<lambda>c. conv_id c = conv) (conversations_collection db) = None
       \<or> (find_one (\<lambda>c. conv_id c = conv) (conversations_collection db) = Some conversation
          \<and> conv_user_id conversation = user_id current_user
          \<and> find_one (\<lambda>b. chatbot_id b = conv_chatbot_id conversation) (chatbots_collection db) = None)"
  shows "(\<exists>detail. response r = Inl (HTTPException 404 detail))
     \<and> store r = db \<and> effects r = []"
  using assms by (auto simp: send_message_def raise_def)

theorem not_found_no_writes_witness:
  "find_one (\<lambda>c. conv_id c = ''c9'') (conversations_collection used_db) = None
   \<and> response (send_message used_db 10 healthy ''c9'' ''Hello'' alice)
       = Inl (HTTPException 404 ''Conversation not found'')
   \<and> store (send_message used_db 10 healthy ''c9'' ''Hello'' alice) = used_db
   \<and> effects (send_message used_db 10 healthy ''c9'' ''Hello'' alice) = []
   \<and> find_one (\<lambda>c. conv_id c = ''c1'') (conversations_collection orphan_db) = Some chat
   \<and> conv_user_id chat = user_id alice
   \<and> find_one (\<lambda>b. chatbot_id b = conv_chatbot_id chat) (chatbots_collection orphan_db) = None
   \<and> response (send_message orphan_db 10 healthy ''c1'' ''Hello'' alice)
       = Inl (HTTPException 404 ''Chatbot not found'')
   \<and> store (send_message orphan_db 10 healthy ''c1'' ''Hello'' alice) = orphan_db
   \<and> effects (send_message orphan_db 10 healthy ''c1'' ''Hello'' alice) = []"
proof -
  have h1: "find_one (\<lambda>c. conv_id c = ''c9'') (conversations_collection used_db) = None"
    and h2: "find_one (\<lambda>c. conv_id c = ''c1'') (conversations_collection orphan_db) = Some chat"
    and h3: "conv_user_id chat = user_id alice"
    and h4: "find_one (\<lambda>b. chatbot_id b = conv_chatbot_id chat) (chatbots_collection orphan_db) = None"
    by (simp_all add: sample_defs)
  have a: "(\<exists>detail. response (send_message used_db 10 healthy ''c9'' ''Hello'' alice)
               = Inl (HTTPException 404 detail))
     \<and> store (send_message used_db 10 healthy ''c9'' ''Hello'' alice) = used_db
     \<and> effects (send_message used_db 10 healthy ''c9'' ''Hello'' alice) = []"
    using h1 by (intro not_found_no_writes [OF refl]) simp
  have b: "(\<exists>detail. response (send_message orphan_db 10 healthy ''c1'' ''Hello'' alice)
               = Inl (HTTPException 404 detail))
     \<and> store (send_message orphan_db 10 healthy ''c1'' ''Hello'' alice) = orphan_db
     \<and> effects (send_message orphan_db 10 healthy ''c1'' ''Hello'' alice) = []"
    using h2 h3 h4 by (intro not_found_no_writes [OF refl, where conversation = chat]) simp
  have c: "response (send_message used_db 10 healthy ''c9'' ''Hello'' alice)
       = Inl (HTTPException 404 ''Conversation not found'')"
    using h1 by (simp add: send_message_def raise_def)
  have d: "response (send_message orphan_db 10 healthy ''c1'' ''Hello'' alice)
       = Inl (HTTPException 404 ''Chatbot not found'')"
    using h2 h3 h4 by (simp add: send_message_def raise_def)
  from h1 h2 h3 h4 a b c d show ?thesis by simp
qed

text \<open>
  Claim C5 as stated fails. The chatbot of the conversation no longer exists and the caller
  is not the conversation's owner: the ownership check comes first, and the call raises 403,
  not 404.
\<close>

theorem not_found_no_writes_counterexample:
  "find_one (\<lambda>c. conv_id c = ''c1'') (conversations_collection orphan_db) = Some chat
   \<and> find_one (\<lambda>b. chatbot_id b = conv_chatbot_id chat) (chatbots_collection orphan_db) = None
   \<and> response (send_message orphan_db 10 healthy ''c1'' ''Hello'' bob)
       = Inl (HTTPException 403 ''Not authorized'')"
  by (simp add: send_message_unfold sample_defs)

section \<open>The system message\<close>

text \<open>
  Claim C6, as amended. The system message is a function of four fields of the chatbot
  document: it is the introduction, then \<^verbatim>\<open>" You are "\<close> (with a space before it), the name,
  \<^verbatim>\<open>". "\<close>, the description, and then exactly one of two fixed clauses, the family-friendly
  one when the chatbot is censored and the permissive one when it is not. Two chatbot
  documents that agree on the four fields have the same system message, and setting the
  flag to one value or the other changes the final clause only.
\<close>

theorem system_message_composition:
  "system_message chatbot =
     introduction chatbot @ '' You are '' @ name chatbot @ ''. '' @ description chatbot
       @ (if is_censored chatbot
          then '' Keep your responses appropriate and family-friendly.''
          else '' You can engage in roleplay and adult content as requested.'')
   \<and> (introduction other = introduction chatbot \<and> name other = name chatbot
        \<and> description other = description chatbot \<and> is_censored other = is_censored chatbot
      \<longrightarrow> system_message other = system_message chatbot)
   \<and> system_message (chatbot\<lparr> is_censored := True \<rparr>) =
       (introduction chatbot @ '' You are '' @ name chatbot @ ''. '' @ description chatbot)
         @ '' Keep your responses appropriate and family-friendly.''
   \<and> system_message (chatbot\<lparr> is_censored := False \<rparr>) =
       (introduction chatbot @ '' You are '' @ name chatbot @ ''. '' @ description chatbot)
         @ '' You can engage in roleplay and adult content as requested.''"
  by (simp add: system_message_def)

theorem system_message_composition_witness:
  "introduction (nova\<lparr> chatbot_id := ''b2'', creator_username := ''bob'' \<rparr>) = introduction nova
   \<and> name (nova\<lparr> chatbot_id := ''b2'', creator_username := ''bob'' \<rparr>) = name nova
   \<and> description (nova\<lparr> chatbot_id := ''b2'', creator_username := ''bob'' \<rparr>) = description nova
   \<and> is_censored (nova\<lparr> chatbot_id := ''b2'', creator_username := ''bob'' \<rparr>) = is_censored nova
   \<and> nova\<lparr> chatbot_id := ''b2'', creator_username := ''bob'' \<rparr> \<noteq> nova
   \<and> system_message (nova\<lparr> chatbot_id := ''b2'', creator_username := ''bob'' \<rparr>) = system_message nova
   \<and> system_message nova =
       ''Hi, I am Nova. You are Nova. a helpful guide Keep your responses appropriate and family-friendly.''
   \<and> system_message (nova\<lparr> is_censored := False \<rparr>) =
       ''Hi, I am Nova. You are Nova. a helpful guide You can engage in roleplay and adult content as requested.''"
proof -
  let ?other = "nova\<lparr> chatbot_id := ''b2'', creator_username := ''bob'' \<rparr>"
  have h: "introduction ?other = introduction nova \<and> name ?other = name nova
      \<and> description ?other = description nova \<and> is_censored ?other = is_censored nova"
    by simp
  have d: "?other \<noteq> nova"
    by (simp add: nova_def)
  have v: "introduction nova = ''Hi, I am Nova.'' \<and> name nova = ''Nova''
      \<and> description nova = ''a helpful guide'' \<and> is_censored nova"
    by (simp add: nova_def)
  from system_message_composition [of nova ?other] h d v show ?thesis
    by simp
qed

text \<open>
  Claim C6 as stated fails: the source puts a space between the introduction and
  \<^verbatim>\<open>"You are "\<close>, so the system message does not begin with the introduction directly
  followed by \<^verbatim>\<open>"You are "\<close>.
\<close>

theorem system_message_composition_counterexample:
  "system_message nova =
     ''Hi, I am Nova. You are Nova. a helpful guide Keep your responses appropriate and family-friendly.''
   \<and> introduction nova @ ''You are '' @ name nova @ ''. '' @ description nova =
     ''Hi, I am Nova.You are Nova. a helpful guide''
   \<and> take (length (introduction nova @ ''You are '' @ name nova @ ''. '' @ description nova))
        (system_message nova)
     \<noteq> introduction nova @ ''You are '' @ name nova @ ''. '' @ description nova"
  by (simp add: system_message_def nova_def)

section \<open>The sender type of the messages written\<close>

text \<open>
  Claim C8, as amended. What a call of \<^verbatim>\<open>send_message\<close>, the only endpoint that inserts
  into the messages collection, adds to that collection is exactly the messages of its
  successful writes, and each of them has the sender type \<^verbatim>\<open>"user"\<close> or \<^verbatim>\<open>"chatbot"\<close>. The
  chatbot's message that a call returns, on the path where the model answered and on the
  fallback path, was written by the call and has the sender type \<^verbatim>\<open>"chatbot"\<close>.
\<close>

theorem sender_types_written:
  assumes "r = send_message db clock env conv text current_user"
  shows "messages_collection (store r) = messages_collection db @ written (effects r)
     \<and> (\<forall>m \<in> set (written (effects r)). sender_type m = ''user'' \<or> sender_type m = ''chatbot'')
     \<and> (\<forall>um bm. response r = Inr (um, bm) \<longrightarrow>
           sender_type bm = ''chatbot'' \<and> bm \<in> set (written (effects r)))"
  using assms
  by (auto simp: send_message_unfold split: option.splits if_splits sum.splits)

theorem sender_types_written_witness:
  "response (send_message fresh_db 10 llm_down ''c1'' ''Hello'' alice)
     = Inr (\<lparr> message_id = ''m1'', conversation_id = ''c1'', sender_type = ''user'',
              content = ''Hello'', timestamp = 11 \<rparr>,
            \<lparr> message_id = ''m3'', conversation_id = ''c1'', sender_type = ''chatbot'',
              content = fallback_content ''Request timed out'', timestamp = 12 \<rparr>)
   \<and> \<lparr> message_id = ''m3'', conversation_id = ''c1'', sender_type = ''chatbot'',
        content = fallback_content ''Request timed out'', timestamp = 12 \<rparr>
       \<in> set (written (effects (send_message fresh_db 10 llm_down ''c1'' ''Hello'' alice)))
   \<and> messages_collection (store (send_message fresh_db 10 llm_down ''c1'' ''Hello'' alice))
       = messages_collection fresh_db
          @ written (effects (send_message fresh_db 10 llm_down ''c1'' ''Hello'' alice))"
proof -
  let ?um = "\<lparr> message_id = ''m1'', conversation_id = ''c1'', sender_type = ''user'',
               content = ''Hello'', timestamp = 11 \<rparr>"
  let ?bm = "\<lparr> message_id = ''m3'', conversation_id = ''c1'', sender_type = ''chatbot'',
               content = fallback_content ''Request timed out'', timestamp = 12 \<rparr>"
  have h: "response (send_message fresh_db 10 llm_down ''c1'' ''Hello'' alice) = Inr (?um, ?bm)"
    by (simp add: send_message_unfold sample_defs)
  from sender_types_written [OF refl, of fresh_db 10 llm_down "''c1''" "''Hello''" alice] h
  show ?thesis by blast
qed

text \<open>
  Claim C8 as stated fails: the chatbot's message is written with the sender type
  \<^verbatim>\<open>"chatbot"\<close>, which is neither \<^verbatim>\<open>"user"\<close> nor \<^verbatim>\<open>"bot"\<close>.
\<close>

theorem sender_types_written_counterexample:
  "written (effects (send_message fresh_db 10 healthy ''c1'' ''Hello'' alice))
     = [\<lparr> message_id = ''m1'', conversation_id = ''c1'', sender_type = ''user'',
           content = ''Hello'', timestamp = 11 \<rparr>,
        \<lparr> message_id = ''m2'', conversation_id = ''c1'', sender_type = ''chatbot'',
           content = ''Hi there'', timestamp = 13 \<rparr>]
   \<and> sender_type (written (effects (send_message fresh_db 10 healthy ''c1'' ''Hello'' alice)) ! 1)
       \<noteq> ''user''
   \<and> sender_type (written (effects (send_message fresh_db 10 healthy ''c1'' ''Hello'' alice)) ! 1)
       \<noteq> ''bot''"
  by (simp add: send_message_unfold sample_defs)

section \<open>Deleting a chatbot\<close>

text \<open>
  Claim C9 says that after a chatbot is deleted no message of one of its conversations
  remains in the messages collection. The source does not do that. Here the owner deletes a
  chatbot that has one conversation with one message: the call succeeds, the chatbot and
  the conversation are removed, and the message of the removed conversation is still in
  the messages collection, because the filter of the third delete asks for a conversation
  id in the empty list.
\<close>

theorem delete_chatbot_keeps_messages:
  "conversations_collection used_db = [chat] \<and> conv_chatbot_id chat = ''b1''
   \<and> messages_collection used_db = [hello] \<and> conversation_id hello = conv_id chat
   \<and> delete_chatbot used_db ''b1'' alice
       = Inr \<lparr> chatbots_collection = [], conversations_collection = [],
               messages_collection = [hello] \<rparr>"
  by (simp add: delete_chatbot_def delete_many_def sample_defs)

section \<open>The chatbot's answer cannot be stored\<close>

text \<open>
  Claim C10, as amended. The conversation exists, the caller owns it, its chatbot exists,
  the user's message is written, the model returns a text, the write of the message with
  that text raises, and the write of the fallback message succeeds. Then the call does not
  raise: it returns the user's message and a fallback chatbot message whose content quotes
  the first 50 characters at most of the storage exception's text; these two are what the
  call appended to the messages collection, and the model's text is in neither.
\<close>

theorem bot_write_failure_falls_back:
  assumes "r = send_message db clock env conv text current_user"
    and "find_one (\<lambda>c. conv_id c = conv) (conversations_collection db) = Some conversation"
    and "conv_user_id conversation = user_id current_user"
    and "find_one (\<lambda>b. chatbot_id b = conv_chatbot_id conversation) (chatbots_collection db) = Some chatbot"
    and "user_insert env = None"
    and "llm_response env = Inr reply"
    and "bot_insert env = Some e"
    and "fallback_insert env = None"
  shows "\<exists>um bm. response r = Inr (um, bm)
     \<and> messages_collection (store r) = messages_collection db @ [um, bm]
     \<and> written (effects r) = [um, bm]
     \<and> conversation_id um = conv \<and> sender_type um = ''user'' \<and> content um = text
     \<and> conversation_id bm = conv \<and> sender_type bm = ''chatbot''
     \<and> content bm =
         ''I'' @ [CHR 0x27] @ ''m sorry, I'' @ [CHR 0x27]
           @ ''m having trouble responding right now. Please try again later. (''
           @ take 50 e @ ''...)''
     \<and> length (take 50 e) \<le> 50"
  using assms by (simp add: send_message_unfold fallback_content_def)

theorem bot_write_failure_falls_back_witness:
  "find_one (\<lambda>c. conv_id c = ''c1'') (conversations_collection fresh_db) = Some chat
   \<and> conv_user_id chat = user_id alice
   \<and> find_one (\<lambda>b. chatbot_id b = conv_chatbot_id chat) (chatbots_collection fresh_db) = Some nova
   \<and> user_insert bot_write_fails = None
   \<and> llm_response bot_write_fails = Inr ''Hi there''
   \<and> bot_insert bot_write_fails = Some ''connection reset''
   \<and> fallback_insert bot_write_fails = None
   \<and> (\<exists>um bm. response (send_message fresh_db 10 bot_write_fails ''c1'' ''Hello'' alice) = Inr (um, bm)
        \<and> messages_collection (store (send_message fresh_db 10 bot_write_fails ''c1'' ''Hello'' alice))
            = messages_collection fresh_db @ [um, bm]
        \<and> sender_type bm = ''chatbot''
        \<and> content bm =
            ''I'' @ [CHR 0x27] @ ''m sorry, I'' @ [CHR 0x27]
              @ ''m having trouble responding right now. Please try again later. (''
              @ ''connection reset'' @ ''...)'')"
proof -
  have h1: "find_one (\<lambda>c. conv_id c = ''c1'') (conversations_collection fresh_db) = Some chat"
    and h2: "conv_user_id chat = user_id alice"
    and h3: "find_one (\<lambda>b. chatbot_id b = conv_chatbot_id chat) (chatbots_collection fresh_db) = Some nova"
    and h4: "user_insert bot_write_fails = None"
    and h5: "llm_response bot_write_fails = Inr ''Hi there''"
    and h6: "bot_insert bot_write_fails = Some ''connection reset''"
    and h7: "fallback_insert bot_write_fails = None"
    by (simp_all add: sample_defs)
  from h1 h2 h3 h4 h5 h6 h7
    bot_write_failure_falls_back [OF refl h1 h2 h3 h4 h5 h6 h7, of 10 "''Hello''"]
  show ?thesis by auto
qed

text \<open>
  Claim C10 as stated fails. The model answers, the write of its answer raises, and then
  the write of the fallback message raises as well: the call raises that storage exception,
  and the only message it stored is the user's.
\<close>

theorem bot_write_failure_falls_back_counterexample:
  "llm_response bot_writes_fail = Inr ''Hi there''
   \<and> bot_insert bot_writes_fail = Some ''connection reset''
   \<and> response (send_message fresh_db 10 bot_writes_fail ''c1'' ''Hello'' alice)
       = Inl (Uncaught ''not primary'')
   \<and> messages_collection (store (send_message fresh_db 10 bot_writes_fail ''c1'' ''Hello'' alice))
       = [\<lparr> message_id = ''m1'', conversation_id = ''c1'', sender_type = ''user'',
            content = ''Hello'', timestamp = 11 \<rparr>]"
  by (simp add: send_message_unfold sample_defs)

end
